theory Spec2Isabelle
  imports Complex_Main "HOL-Library.Sublist"
begin

section \<open>The pixel inspector item (class ViewItem)\<close>

text \<open>
  A colour as the toolkit's \<open>QColor\<close>: red, green, blue and alpha. The constructor call
  \<open>QColor(0, 0, 0)\<close> of the source leaves alpha at its default, 255 (opaque).
\<close>

datatype qcolor = QColor int int int int

definition QColor_rgb :: "int \<Rightarrow> int \<Rightarrow> int \<Rightarrow> qcolor" where
  "QColor_rgb r g b = QColor r g b 255"

text \<open>
  The bitmap shown by the item. \<open>pixelColor\<close> is the toolkit's answer to a pixel query at any
  coordinate; the model makes no assumption on it, also outside the bitmap.
\<close>

record qpixmap =
  width :: int
  height :: int
  pixelColor :: "int \<Rightarrow> int \<Rightarrow> qcolor"

record view_item =
  mouse_over :: bool
  mouse_position_x :: int
  mouse_position_y :: int
  pixmap :: qpixmap

definition ViewItem_init :: "qpixmap \<Rightarrow> view_item" where
  "ViewItem_init pm =
     \<lparr>mouse_over = False, mouse_position_x = - 1, mouse_position_y = - 1, pixmap = pm\<rparr>"

definition hoverEnterEvent :: "view_item \<Rightarrow> view_item" where
  "hoverEnterEvent it = it\<lparr>mouse_over := True\<rparr>"

definition hoverLeaveEvent :: "view_item \<Rightarrow> view_item" where
  "hoverLeaveEvent it = it\<lparr>mouse_over := False\<rparr>"

definition hoverMoveEvent :: "int \<Rightarrow> int \<Rightarrow> view_item \<Rightarrow> view_item" where
  "hoverMoveEvent x y it = it\<lparr>mouse_position_x := x, mouse_position_y := y\<rparr>"

text \<open>
  \<open>get_mouse_color\<close> returns a colour, or Python's \<open>None\<close> when the function falls off its
  end (the branch that resets the recorded coordinate has no \<open>return\<close>). The second
  component is the item after the call.
\<close>

definition get_mouse_color :: "view_item \<Rightarrow> qcolor option \<times> view_item" where
  "get_mouse_color it =
     (if mouse_over it then
        (if mouse_position_x it \<le> width (pixmap it) \<and>
            mouse_position_y it \<le> height (pixmap it)
         then (Some (pixelColor (pixmap it) (mouse_position_x it) (mouse_position_y it)), it)
         else (None, it\<lparr>mouse_position_x := - 1, mouse_position_y := - 1\<rparr>))
      else (Some (QColor_rgb 0 0 0), it))"

section \<open>The display surface (class TcamScreen)\<close>

text \<open>
  The fields of the surface that its own methods read or write, and the two effects it has on
  the outside: the emissions of the signal \<open>new_pixel_under_mouse\<close> and the calls of the
  view's \<open>scale\<close>. Anchors, \<open>mapToScene\<close> and \<open>translate\<close> belong to the toolkit's view
  transform and never touch \<open>zoom_factor\<close>.
\<close>

record tcam_screen =
  pix :: view_item
  zoom_factor :: real
  scale_calls :: "(real \<times> real) list"
  new_pixel_under_mouse :: "(bool \<times> qcolor option) list"

definition TcamScreen_init :: "qpixmap \<Rightarrow> tcam_screen" where
  "TcamScreen_init pm =
     \<lparr>pix = ViewItem_init pm, zoom_factor = 1.0, scale_calls = [],
      new_pixel_under_mouse = []\<rparr>"

text \<open>
  The arguments of \<open>emit\<close> are evaluated left to right: \<open>mouse_over\<close> is read before
  \<open>get_mouse_color\<close> runs.
\<close>

definition send_mouse_pixel :: "tcam_screen \<Rightarrow> tcam_screen" where
  "send_mouse_pixel s =
     (let over = mouse_over (pix s);
          (color, it) = get_mouse_color (pix s)
      in s\<lparr>pix := it, new_pixel_under_mouse := new_pixel_under_mouse s @ [(over, color)]\<rparr>)"

definition on_new_pixmap :: "qpixmap \<Rightarrow> tcam_screen \<Rightarrow> tcam_screen" where
  "on_new_pixmap pm s = send_mouse_pixel (s\<lparr>pix := (pix s)\<lparr>pixmap := pm\<rparr>\<rparr>)"

text \<open>
  \<open>wheelEvent\<close> takes the vertical angle delta of the wheel event. The source computes
  with Python floats; the model computes with reals, and every proof below uses the guard
  only, never a law of arithmetic.
\<close>

definition zoomInFactor :: real where
  "zoomInFactor = 1.25"

definition zoomOutFactor :: real where
  "zoomOutFactor = 1 / zoomInFactor"

definition wheelEvent :: "int \<Rightarrow> tcam_screen \<Rightarrow> tcam_screen" where
  "wheelEvent angle_delta_y s =
     (let zoomFactor = (if angle_delta_y > 0 then zoomInFactor else zoomOutFactor)
      in if zoom_factor s * zoomFactor \<le> 0.64 then s
         else s\<lparr>zoom_factor := zoom_factor s * zoomFactor,
                scale_calls := scale_calls s @ [(zoomFactor, zoomFactor)]\<rparr>)"

fun wheel_events :: "int list \<Rightarrow> tcam_screen \<Rightarrow> tcam_screen" where
  "wheel_events [] s = s"
| "wheel_events (d # ds) s = wheel_events ds (wheelEvent d s)"

section \<open>The capture widget (class TcamView): pipeline, errors, observers\<close>

datatype py_error = AttributeError | TypeError | ValueError

text \<open>
  A method that can raise returns \<open>Inl\<close> of the exception or \<open>Inr\<close> of the widget after
  the call; \<open>and_then\<close> sequences two statements, the second running only when the first
  returned.
\<close>

definition and_then :: "py_error + 'a \<Rightarrow> ('a \<Rightarrow> py_error + 'b) \<Rightarrow> py_error + 'b" where
  "and_then r f = (case r of Inl e \<Rightarrow> Inl e | Inr x \<Rightarrow> f x)"

datatype gst_state = VOID_PENDING | NULL | READY | PAUSED | PLAYING

text \<open>
  What the widget does to the outside, in the order it does it: building a pipeline from a
  description, a state request, setting the \<open>device-caps\<close> property of the element named
  \<open>bin\<close>, and the call of one device-lost observer. Observers are opaque: the model
  records that a callback was called and says nothing of what it does.
\<close>

datatype 'cb effect =
    ParseLaunch string
  | SetState gst_state
  | SetDeviceCaps string
  | Invoke 'cb

datatype log_level = Debug | Info | Warning | Error

text \<open>
  The pipeline handle. The streaming engine is taken to honour a state request: after
  \<open>set_state(st)\<close> the state read back by \<open>get_state\<close> is \<open>st\<close>.
\<close>

record pipeline_handle =
  description :: string
  state :: gst_state
  device_caps :: "string option"

record 'cb tcam_view =
  serial :: string
  pipeline :: "pipeline_handle option"
  device_lost_callbacks :: "'cb list"
  is_fullscreen :: bool
  fullscreen_container :: "tcam_screen option"
  effects :: "'cb effect list"
  log :: "(log_level \<times> string \<times> string list) list"

definition TcamView_init :: "string \<Rightarrow> 'cb tcam_view" where
  "TcamView_init ser =
     \<lparr>serial = ser, pipeline = None, device_lost_callbacks = [], is_fullscreen = False,
      fullscreen_container = None, effects = [], log = []\<rparr>"

text \<open>A call of the logger: level, message, further positional arguments.\<close>

definition log_call :: "log_level \<Rightarrow> string \<Rightarrow> string list \<Rightarrow> 'cb tcam_view \<Rightarrow> 'cb tcam_view" where
  "log_call lvl msg args v = v\<lparr>log := log v @ [(lvl, msg, args)]\<rparr>"

text \<open>
  \<open>self.pipeline.set_state(st)\<close>: an attribute access on \<open>None\<close> raises \<open>AttributeError\<close>.
\<close>

definition pipeline_set_state :: "gst_state \<Rightarrow> 'cb tcam_view \<Rightarrow> py_error + 'cb tcam_view" where
  "pipeline_set_state st v =
     (case pipeline v of
        None \<Rightarrow> Inl AttributeError
      | Some p \<Rightarrow> Inr (v\<lparr>pipeline := Some (p\<lparr>state := st\<rparr>),
                         effects := effects v @ [SetState st]\<rparr>))"

definition pipeline_get_state :: "'cb tcam_view \<Rightarrow> py_error + gst_state" where
  "pipeline_get_state v =
     (case pipeline v of None \<Rightarrow> Inl AttributeError | Some p \<Rightarrow> Inr (state p))"

definition set_device_caps :: "string \<Rightarrow> 'cb tcam_view \<Rightarrow> py_error + 'cb tcam_view" where
  "set_device_caps video_format v =
     (case pipeline v of
        None \<Rightarrow> Inl AttributeError
      | Some p \<Rightarrow> Inr (v\<lparr>pipeline := Some (p\<lparr>device_caps := Some video_format\<rparr>),
                         effects := effects v @ [SetDeviceCaps video_format]\<rparr>))"

definition pipeline_str :: "string \<Rightarrow> string" where
  "pipeline_str ser =
     ''tcambin serial='' @ ser @ '' name=bin '' @
     ''! video/x-raw,format=BGRx '' @
     ''! tee name=tee tee. '' @
     ''! queue '' @
     ''! videoconvert '' @
     ''! video/x-raw,format=BGRx '' @
     ''! appsink name=sink emit-signals=true''"

text \<open>
  \<open>create_pipeline\<close>: a pipeline launched from a description starts in the null state; the
  method then requests the ready state. The savers and the bus wiring it sets up do not
  appear in any state request.
\<close>

definition create_pipeline :: "'cb tcam_view \<Rightarrow> py_error + 'cb tcam_view" where
  "create_pipeline v =
     and_then
       (pipeline_set_state READY
          (v\<lparr>pipeline := Some \<lparr>description = pipeline_str (serial v), state = NULL,
                                device_caps = None\<rparr>,
             effects := effects v @ [ParseLaunch (pipeline_str (serial v))]\<rparr>))
       (\<lambda>v'. Inr (log_call Debug ''Created pipeline and set to READY'' [] v'))"

definition play :: "string option \<Rightarrow> 'cb tcam_view \<Rightarrow> py_error + 'cb tcam_view" where
  "play video_format v =
     and_then (if pipeline v = None then create_pipeline v else Inr v) (\<lambda>v1.
     and_then (pipeline_get_state v1) (\<lambda>st.
     and_then (if st = PLAYING
               then pipeline_set_state NULL (log_call Debug ''Setting pipeline to READY'' [] v1)
               else Inr v1) (\<lambda>v2.
     and_then (case video_format of
                 None \<Rightarrow> Inr v2
               | Some f \<Rightarrow> set_device_caps f (log_call Info (''Setting format to '' @ f) [] v2)) (\<lambda>v3.
     pipeline_set_state PLAYING (log_call Info ''Setting state PLAYING'' [] v3)))))"

definition pause :: "'cb tcam_view \<Rightarrow> py_error + 'cb tcam_view" where
  "pause v = pipeline_set_state PAUSED (log_call Info ''Setting state to PAUSED'' [] v)"

definition stop :: "'cb tcam_view \<Rightarrow> py_error + 'cb tcam_view" where
  "stop v =
     and_then (pipeline_set_state NULL (log_call Info ''Setting state to NULL'' [] v))
       (\<lambda>v'. Inr (log_call Info ''Set State to NULL'' [] v'))"

definition register_device_lost :: "'cb \<Rightarrow> 'cb tcam_view \<Rightarrow> 'cb tcam_view" where
  "register_device_lost callback v =
     v\<lparr>device_lost_callbacks := device_lost_callbacks v @ [callback]\<rparr>"

text \<open>The loop of \<open>fire_device_lost\<close> over the observer list, front to back.\<close>

fun call_each :: "'cb list \<Rightarrow> 'cb tcam_view \<Rightarrow> 'cb tcam_view" where
  "call_each [] v = v"
| "call_each (cb # cbs) v = call_each cbs (v\<lparr>effects := effects v @ [Invoke cb]\<rparr>)"

definition fire_device_lost :: "'cb tcam_view \<Rightarrow> 'cb tcam_view" where
  "fire_device_lost v = call_each (device_lost_callbacks v) v"

text \<open>
  A message on the bus, as \<open>on_error\<close> reads it: the name of the element it comes from,
  the text of the error, and the debug string (possibly \<open>None\<close>; an empty string is falsy).
\<close>

record gst_message =
  src_name :: string
  err_message :: string
  dbg :: "string option"

definition on_error :: "gst_message \<Rightarrow> 'cb tcam_view \<Rightarrow> 'cb tcam_view" where
  "on_error msg v =
     (if src_name msg = ''tcambin-source'' then
        (if err_message msg = ''Device lost''
         then fire_device_lost (log_call Error ''Received device lost message'' [] v)
         else log_call Error (''Error from source: '' @ err_message msg) [] v)
      else
        (let v' = log_call Error ''ERROR:'' [src_name msg, '':'', err_message msg] v
         in case dbg msg of
              None \<Rightarrow> v'
            | Some d \<Rightarrow> if d = [] then v' else log_call Debug ''Debug info:'' [d] v'))"

text \<open>The state requests among the effects: what the pipeline is asked to do.\<close>

fun state_requests :: "'cb effect list \<Rightarrow> gst_state list" where
  "state_requests [] = []"
| "state_requests (SetState st # es) = st # state_requests es"
| "state_requests (e # es) = state_requests es"

fun pipeline_effects :: "'cb effect list \<Rightarrow> 'cb effect list" where
  "pipeline_effects [] = []"
| "pipeline_effects (Invoke cb # es) = pipeline_effects es"
| "pipeline_effects (e # es) = e # pipeline_effects es"

subsection \<open>The event filter and the fullscreen toggle\<close>

text \<open>
  Python values that \<open>eventFilter\<close> compares. \<open>event.type\<close>, written without a call, is the
  bound method object of the event; \<open>QEvent.KeyPress\<close> is a member of the enumeration
  \<open>QEvent.Type\<close>. Python's \<open>==\<close> between a method object and an enumeration member is
  \<open>False\<close>: neither side defines the comparison, and they are not the same object.
\<close>

datatype qevent_type = KeyPress | KeyRelease | OtherEvent nat

record qevent =
  event_type :: qevent_type
  event_key :: int

datatype py_value = BoundMethod qevent string | EnumMember qevent_type

fun py_eq :: "py_value \<Rightarrow> py_value \<Rightarrow> bool" where
  "py_eq (EnumMember a) (EnumMember b) = (a = b)"
| "py_eq (BoundMethod e m) (BoundMethod e' m') = (e = e' \<and> m = m')"
| "py_eq (BoundMethod e m) (EnumMember b) = False"
| "py_eq (EnumMember a) (BoundMethod e' m') = False"

definition Key_F11 :: int where
  "Key_F11 = 0x0100003a"

definition toggle_fullscreen :: "qpixmap \<Rightarrow> 'cb tcam_view \<Rightarrow> 'cb tcam_view" where
  "toggle_fullscreen blank v =
     (if is_fullscreen v
      then v\<lparr>is_fullscreen := False, fullscreen_container := None\<rparr>
      else v\<lparr>is_fullscreen := True, fullscreen_container := Some (TcamScreen_init blank)\<rparr>)"

text \<open>
  \<open>eventFilter\<close>: \<open>base\<close> is the answer of the inherited \<open>QObject.eventFilter\<close>, \<open>blank\<close> the
  empty bitmap of a freshly built display surface.
\<close>

definition eventFilter ::
  "(qevent \<Rightarrow> bool) \<Rightarrow> qpixmap \<Rightarrow> qevent \<Rightarrow> 'cb tcam_view \<Rightarrow> bool \<times> 'cb tcam_view" where
  "eventFilter base blank event v =
     (if py_eq (BoundMethod event ''type'') (EnumMember KeyPress) then
        (if event_key event = Key_F11
         then (True, toggle_fullscreen blank v)
         else (base event, v))
      else (base event, v))"

section \<open>The format menu builder (TcamView.create_format_menu)\<close>

subsection \<open>Python strings\<close>












subsection \<open>Capability structures\<close>








subsection \<open>The menu\<close>







subsection \<open>The frame rates of a structure\<close>


subsection \<open>One capability structure\<close>










subsection \<open>A synthetic capability list\<close>







section \<open>Properties of the display surface\<close>

lemma wheelEvent_keeps_floor:
  "0.64 < zoom_factor s \<Longrightarrow> 0.64 < zoom_factor (wheelEvent d s)"
  by (simp add: wheelEvent_def Let_def)

lemma wheel_events_keep_floor:
  "0.64 < zoom_factor s \<Longrightarrow> 0.64 < zoom_factor (wheel_events ds s)"
proof (induction ds arbitrary: s)
  case Nil
  then show ?case by (simp only: wheel_events.simps)
next
  case (Cons d ds)
  from Cons.prems have "0.64 < zoom_factor (wheelEvent d s)"
    by (rule wheelEvent_keeps_floor)
  then have "0.64 < zoom_factor (wheel_events ds (wheelEvent d s))"
    by (rule Cons.IH)
  then show ?case by (simp only: wheel_events.simps)
qed

text \<open>
  Claim C7. Starting from a fresh display surface (zoom factor 1.0), after any sequence of
  wheel steps the cumulative zoom factor is strictly greater than 0.64. Every prefix of a
  sequence is itself a sequence, so the bound holds after every single step.
\<close>

theorem C7_zoom_factor_above_floor:
  "0.64 < zoom_factor (wheel_events ds (TcamScreen_init pm))"
  by (rule wheel_events_keep_floor) (simp add: TcamScreen_init_def)

section \<open>Properties of the pixel inspector\<close>

lemma on_new_pixmap_pointer_absent:
  "\<not> mouse_over (pix s) \<Longrightarrow>
   new_pixel_under_mouse (on_new_pixmap pm s) =
     new_pixel_under_mouse s @ [(False, Some (QColor 0 0 0 255))]"
  by (simp add: on_new_pixmap_def send_mouse_pixel_def get_mouse_color_def QColor_rgb_def)

lemma on_new_pixmap_beyond_dimensions:
  "mouse_over (pix s) \<Longrightarrow>
   width pm < mouse_position_x (pix s) \<or> height pm < mouse_position_y (pix s) \<Longrightarrow>
   new_pixel_under_mouse (on_new_pixmap pm s) = new_pixel_under_mouse s @ [(True, None)] \<and>
   mouse_position_x (pix (on_new_pixmap pm s)) = - 1 \<and>
   mouse_position_y (pix (on_new_pixmap pm s)) = - 1"
  by (auto simp add: on_new_pixmap_def send_mouse_pixel_def get_mouse_color_def)

text \<open>
  Claim C8, at the input where the code leaves it. A 640 by 480 frame arrives while the
  pointer is over the surface and its recorded coordinate is (640, 10): one column to the
  right of the last pixel column, so outside the bitmap. The surface emits
  \<open>(True, pixelColor(640, 10))\<close>, the toolkit's answer to a query outside the image, and the
  recorded coordinate stays (640, 10): it is not reset to (-1, -1).
\<close>

theorem C8_edge_coordinate_not_reset:
  "new_pixel_under_mouse
     (on_new_pixmap \<lparr>width = 640, height = 480, pixelColor = c\<rparr>
        ((TcamScreen_init blank)
           \<lparr>pix := \<lparr>mouse_over = True, mouse_position_x = 640, mouse_position_y = 10,
                     pixmap = blank\<rparr>\<rparr>))
     = [(True, Some (c 640 10))] \<and>
   mouse_position_x (pix
     (on_new_pixmap \<lparr>width = 640, height = 480, pixelColor = c\<rparr>
        ((TcamScreen_init blank)
           \<lparr>pix := \<lparr>mouse_over = True, mouse_position_x = 640, mouse_position_y = 10,
                     pixmap = blank\<rparr>\<rparr>))) = 640"
  by (simp add: on_new_pixmap_def send_mouse_pixel_def get_mouse_color_def TcamScreen_init_def)

text \<open>
  Claim C10. The colour query falls into its resetting branch (and returns \<open>None\<close>) exactly
  when the pointer is over the item and a recorded coordinate is strictly greater than the
  bitmap's width or height. A recorded coordinate equal to the width (or to the height),
  the other one within its dimension, is taken as in bounds: the pixel at that coordinate
  is queried and the item is left as it was.
\<close>

theorem C10_bounds_test_is_inclusive:
  "(fst (get_mouse_color it) = None \<longleftrightarrow>
      mouse_over it \<and>
      (width (pixmap it) < mouse_position_x it \<or> height (pixmap it) < mouse_position_y it)) \<and>
   (mouse_over it \<and> mouse_position_x it = width (pixmap it) \<and>
      mouse_position_y it \<le> height (pixmap it) \<longrightarrow>
    get_mouse_color it =
      (Some (pixelColor (pixmap it) (width (pixmap it)) (mouse_position_y it)), it)) \<and>
   (mouse_over it \<and> mouse_position_y it = height (pixmap it) \<and>
      mouse_position_x it \<le> width (pixmap it) \<longrightarrow>
    get_mouse_color it =
      (Some (pixelColor (pixmap it) (mouse_position_x it) (height (pixmap it))), it))"
  by (auto simp add: get_mouse_color_def)

theorem C10_bounds_test_is_inclusive_witness:
  "mouse_over \<lparr>mouse_over = True, mouse_position_x = 640, mouse_position_y = 10,
      pixmap = \<lparr>width = 640, height = 480, pixelColor = (\<lambda>x y. QColor x y 0 255)\<rparr>\<rparr> \<and>
   get_mouse_color \<lparr>mouse_over = True, mouse_position_x = 640, mouse_position_y = 10,
      pixmap = \<lparr>width = 640, height = 480, pixelColor = (\<lambda>x y. QColor x y 0 255)\<rparr>\<rparr> =
     (Some (QColor 640 10 0 255),
      \<lparr>mouse_over = True, mouse_position_x = 640, mouse_position_y = 10,
      pixmap = \<lparr>width = 640, height = 480, pixelColor = (\<lambda>x y. QColor x y 0 255)\<rparr>\<rparr>)"
  using C10_bounds_test_is_inclusive
    [of "\<lparr>mouse_over = True, mouse_position_x = 640, mouse_position_y = 10,
      pixmap = \<lparr>width = 640, height = 480, pixelColor = (\<lambda>x y. QColor x y 0 255)\<rparr>\<rparr>"]
  by simp

section \<open>Properties of the capture widget\<close>

lemma call_each_effects: "effects (call_each cbs v) = effects v @ map Invoke cbs"
  by (induction cbs arbitrary: v) simp_all

lemma call_each_pipeline: "pipeline (call_each cbs v) = pipeline v"
  by (induction cbs arbitrary: v) simp_all

lemma call_each_callbacks: "device_lost_callbacks (call_each cbs v) = device_lost_callbacks v"
  by (induction cbs arbitrary: v) simp_all

lemma pipeline_effects_append:
  "pipeline_effects (es @ fs) = pipeline_effects es @ pipeline_effects fs"
  by (induction es rule: pipeline_effects.induct) simp_all

lemma pipeline_effects_Invoke: "pipeline_effects (map Invoke cbs) = []"
  by (induction cbs) simp_all

lemma state_requests_append:
  "state_requests (es @ fs) = state_requests es @ state_requests fs"
  by (induction es rule: state_requests.induct) simp_all

lemma state_requests_Invoke: "state_requests (map Invoke cbs) = []"
  by (induction cbs) simp_all

lemma on_error_effects:
  "effects (on_error msg v) =
     effects v @
     (if src_name msg = ''tcambin-source'' \<and> err_message msg = ''Device lost''
      then map Invoke (device_lost_callbacks v) else [])"
  by (simp add: on_error_def fire_device_lost_def call_each_effects log_call_def Let_def
      split: option.splits)

lemma on_error_pipeline: "pipeline (on_error msg v) = pipeline v"
  by (simp add: on_error_def fire_device_lost_def call_each_pipeline log_call_def Let_def
      split: option.splits)

text \<open>
  Claim C1. Registering an observer puts it at the end of the observer list. An error
  message from the element \<open>tcambin-source\<close> whose text is exactly \<open>Device lost\<close> calls the
  observers of the list, each once per registration, front to back, and does nothing else
  to the outside; an error message with any other text, or from any other element, calls
  no observer.
\<close>

theorem C1_device_lost_calls_observers_in_order:
  "device_lost_callbacks (register_device_lost cb v) = device_lost_callbacks v @ [cb] \<and>
   effects (on_error msg v) =
     effects v @
     (if src_name msg = ''tcambin-source'' \<and> err_message msg = ''Device lost''
      then map Invoke (device_lost_callbacks v) else [])"
  by (simp add: register_device_lost_def on_error_effects)

text \<open>
  Claim C2, as stated, fails. A widget with two observers is playing; the source reports
  \<open>Device lost\<close>. After the handler has run, both observers have been called, the last
  state request is still the one for the playing state, and the pipeline is in the playing
  state, not in the null state.
\<close>

theorem C2_pipeline_not_stopped_counterexample:
  "\<exists>v. play None (register_device_lost (2::nat)
           (register_device_lost 1 (TcamView_init ''12345''))) = Inr v \<and>
       effects (on_error \<lparr>src_name = ''tcambin-source'', err_message = ''Device lost'',
                   dbg = None\<rparr> v) =
         [ParseLaunch (pipeline_str ''12345''), SetState READY, SetState PLAYING,
          Invoke 1, Invoke 2] \<and>
       pipeline_get_state (on_error \<lparr>src_name = ''tcambin-source'',
                   err_message = ''Device lost'', dbg = None\<rparr> v) = Inr PLAYING"
  by (simp add: play_def create_pipeline_def pipeline_set_state_def pipeline_get_state_def
      and_then_def log_call_def register_device_lost_def TcamView_init_def on_error_def
      fire_device_lost_def)

text \<open>
  Claim C2, amended. After a \<open>Device lost\<close> error from the source is handled, every
  registered observer has been called, in order, and the handler has asked nothing of the
  pipeline: the pipeline handle and its state are what they were before the error, and no
  state request, no new pipeline and no capability change has been issued. The widget
  neither stops the pipeline nor reconnects.
\<close>

theorem C2_handler_leaves_pipeline_untouched:
  "effects (on_error \<lparr>src_name = ''tcambin-source'', err_message = ''Device lost'', dbg = d\<rparr> v)
     = effects v @ map Invoke (device_lost_callbacks v) \<and>
   pipeline (on_error \<lparr>src_name = ''tcambin-source'', err_message = ''Device lost'', dbg = d\<rparr> v)
     = pipeline v \<and>
   pipeline_effects
     (effects (on_error \<lparr>src_name = ''tcambin-source'', err_message = ''Device lost'', dbg = d\<rparr> v))
     = pipeline_effects (effects v)"
  by (simp add: on_error_effects on_error_pipeline pipeline_effects_append
      pipeline_effects_Invoke)

text \<open>
  Claim C3, as stated, fails: in the uninitialized state, where no pipeline has been
  constructed, \<open>stop()\<close> raises \<open>AttributeError\<close>.
\<close>

theorem C3_stop_uninitialized_counterexample:
  "stop (TcamView_init ''12345'' :: nat tcam_view) = Inl AttributeError"
  by (simp add: stop_def pipeline_set_state_def and_then_def log_call_def TcamView_init_def)

text \<open>
  Claim C3, amended. From every state in which a pipeline has been constructed, whatever
  the pipeline's state, \<open>stop()\<close> returns without raising, issues exactly one request for
  the null state and leaves the pipeline in the null state; calling it again returns as
  well and leaves the pipeline as the first call left it.
\<close>

theorem C3_stop_with_pipeline:
  "pipeline v = Some p \<Longrightarrow>
   \<exists>v'. stop v = Inr v' \<and>
        effects v' = effects v @ [SetState NULL] \<and>
        pipeline v' = Some (p\<lparr>state := NULL\<rparr>) \<and>
        (\<exists>v''. stop v' = Inr v'' \<and> pipeline v'' = pipeline v')"
  by (simp add: stop_def pipeline_set_state_def and_then_def log_call_def)

theorem C3_stop_with_pipeline_witness:
  "\<exists>v v'. play None (TcamView_init ''12345'' :: nat tcam_view) = Inr v \<and>
          stop v = Inr v' \<and>
          effects v' = effects v @ [SetState NULL] \<and>
          pipeline_get_state v' = Inr NULL"
proof -
  define v :: "nat tcam_view" where
    "v = \<lparr>serial = ''12345'',
          pipeline = Some \<lparr>description = pipeline_str ''12345'', state = PLAYING,
                           device_caps = None\<rparr>,
          device_lost_callbacks = [], is_fullscreen = False, fullscreen_container = None,
          effects = [ParseLaunch (pipeline_str ''12345''), SetState READY, SetState PLAYING],
          log = [(Debug, ''Created pipeline and set to READY'', []),
                 (Info, ''Setting state PLAYING'', [])]\<rparr>"
  have p: "play None (TcamView_init ''12345'' :: nat tcam_view) = Inr v"
    by (simp add: v_def play_def create_pipeline_def pipeline_set_state_def
        pipeline_get_state_def and_then_def log_call_def TcamView_init_def)
  have h: "pipeline v = Some \<lparr>description = pipeline_str ''12345'', state = PLAYING,
                               device_caps = None\<rparr>"
    by (simp add: v_def)
  from C3_stop_with_pipeline [OF h] obtain v' where
    "stop v = Inr v'" "effects v' = effects v @ [SetState NULL]"
    "pipeline v' = Some (\<lparr>description = pipeline_str ''12345'', state = PLAYING,
                            device_caps = None\<rparr>\<lparr>state := NULL\<rparr>)"
    by blast
  with p show ?thesis by (auto simp add: pipeline_get_state_def)
qed

text \<open>
  Claim C4. Every call of \<open>play\<close> returns, and what it does to the outside is, in this
  order: if no pipeline exists, one is built (and asked for the ready state); if the
  pipeline is then in the playing state, which only a pipeline that existed before the
  call can be, the null state is requested; if a format string is given, it is set as the
  device capability; and last, always, the playing state is requested.
\<close>

theorem C4_play_effects_in_order:
  "\<exists>v'. play video_format v = Inr v' \<and>
        effects v' =
          effects v @
          (if pipeline v = None
           then [ParseLaunch (pipeline_str (serial v)), SetState READY] else []) @
          (if map_option state (pipeline v) = Some PLAYING then [SetState NULL] else []) @
          (case video_format of None \<Rightarrow> [] | Some f \<Rightarrow> [SetDeviceCaps f]) @
          [SetState PLAYING] \<and>
        map_option state (pipeline v') = Some PLAYING"
  by (cases "pipeline v"; cases video_format)
     (simp_all add: play_def create_pipeline_def pipeline_set_state_def
        pipeline_get_state_def set_device_caps_def and_then_def log_call_def)

text \<open>
  Claim C9. For every event, the test \<open>event.type == QEvent.KeyPress\<close> compares the
  method object with the enumeration member and is false, so \<open>eventFilter\<close> returns what
  the inherited filter returns and leaves the widget as it was: the fullscreen toggle,
  which always changes \<open>is_fullscreen\<close>, is never called, also for a key press of F11.
\<close>

theorem C9_eventFilter_never_toggles:
  "eventFilter base blank event v = (base event, v) \<and>
   is_fullscreen (toggle_fullscreen blank v) = (\<not> is_fullscreen v)"
  by (simp add: eventFilter_def toggle_fullscreen_def)

section \<open>Properties of the format menu builder\<close>

subsection \<open>Decimal text\<close>











subsection \<open>The dictionary\<close>






subsection \<open>One structure\<close>






subsection \<open>The loop\<close>






subsection \<open>The kinds of capability structure\<close>












subsection \<open>The synthetic capability list\<close>
















subsection \<open>One action per frame rate\<close>





end
